theory Spec2Isabelle
  imports Main
begin

section \<open>Exceptions, Python values and classes\<close>

text \<open>
  The package \<^verbatim>\<open>autotranslate\<close> has two modules: \<^verbatim>\<open>config.py\<close> (the resolver
  \<^verbatim>\<open>get_translator\<close>) and \<^verbatim>\<open>services.py\<close> (the abstract translator and three
  backends). Every exception the two modules raise is a constructor of \<open>exn\<close>; an
  exception raised by an external library (googletrans, googleapiclient, boto3) while it
  builds a client or answers a request is not caught anywhere in the package and is carried
  unchanged as \<open>PassThrough\<close>.
\<close>

datatype provider_exn = ProviderExn string

datatype exn =
    ImproperlyConfigured string
  | ImportError string
  | NotImplementedError string
  | TypeError string
  | IndexError string
  | PassThrough provider_exn

text \<open>
  The classes the resolver can meet: \<^verbatim>\<open>object\<close>, the four classes of
  \<^verbatim>\<open>services.py\<close>, and any other class, given by its qualified name and its direct
  bases (an empty list of bases stands for \<^verbatim>\<open>object\<close> alone).
\<close>

datatype cls =
    Object
  | BaseTranslatorService
  | GoogleTranslatorService
  | GoogleAPITranslatorService
  | AmazonTranslateTranslatorService
  | OtherClass string "cls list"

text \<open>
  \<open>issubclass a b\<close> is Python's \<^verbatim>\<open>issubclass(a, b)\<close> over the nominal hierarchy:
  \<open>a\<close> is \<open>b\<close> or \<open>b\<close> is among the ancestors of \<open>a\<close>.
\<close>

fun issubclass :: "cls \<Rightarrow> cls \<Rightarrow> bool" where
  "issubclass Object b = (b = Object)"
| "issubclass BaseTranslatorService b = (b = BaseTranslatorService \<or> b = Object)"
| "issubclass GoogleTranslatorService b =
     (b = GoogleTranslatorService \<or> b = BaseTranslatorService \<or> b = Object)"
| "issubclass GoogleAPITranslatorService b =
     (b = GoogleAPITranslatorService \<or> b = BaseTranslatorService \<or> b = Object)"
| "issubclass AmazonTranslateTranslatorService b =
     (b = AmazonTranslateTranslatorService \<or> b = BaseTranslatorService \<or> b = Object)"
| "issubclass (OtherClass n bs) b =
     (b = OtherClass n bs \<or> b = Object \<or> list_ex (\<lambda>c. issubclass c b) bs)"

text \<open>
  A value a Django setting or an imported attribute can hold: \<^verbatim>\<open>None\<close>, a string, a
  class, or any other object, of which the model keeps what the code looks at: its
  \<^verbatim>\<open>str()\<close> text and its truth value.
\<close>

datatype pyval =
    PyNone
  | PyStr string
  | PyClass cls
  | PyOther string bool

fun class_name :: "cls \<Rightarrow> string" where
  "class_name Object = ''object''"
| "class_name BaseTranslatorService = ''autotranslate.services.BaseTranslatorService''"
| "class_name GoogleTranslatorService = ''autotranslate.services.GoogleTranslatorService''"
| "class_name GoogleAPITranslatorService =
     ''autotranslate.services.GoogleAPITranslatorService''"
| "class_name AmazonTranslateTranslatorService =
     ''autotranslate.services.AmazonTranslateTranslatorService''"
| "class_name (OtherClass n bs) = n"

fun py_str :: "pyval \<Rightarrow> string" where
  "py_str PyNone = ''None''"
| "py_str (PyStr s) = s"
| "py_str (PyClass c) = ''<class '' @ [CHR 0x27] @ class_name c @ [CHR 0x27] @ ''>''"
| "py_str (PyOther r b) = r"

fun truthy :: "pyval \<Rightarrow> bool" where
  "truthy PyNone = False"
| "truthy (PyStr s) = (s \<noteq> [])"
| "truthy (PyClass c) = True"
| "truthy (PyOther r b) = b"

section \<open>The world outside the package\<close>

text \<open>
  What the package does to the outside world is a list of events, in the order they
  happen: the construction of a provider client and every request sent to a provider.
  The arguments are in the order the source passes them.
\<close>

datatype event =
    GoogletransTranslator
  | GoogleApiBuild pyval
  | Boto3Client
  | GoogletransTranslateOne string string string
  | GoogletransTranslateMany "string list" string string
  | GoogleApiList string string "string list"
  | AmazonTranslateText string string string

text \<open>
  The providers are parameters. A client constructor either succeeds (\<open>None\<close>) or raises;
  a request either raises or answers. An answer is kept as the texts the backend reads out
  of it: the \<^verbatim>\<open>.text\<close> of a googletrans result, the \<^verbatim>\<open>translatedText\<close> of each entry of
  the \<^verbatim>\<open>translations\<close> list of the Google API, the \<^verbatim>\<open>TranslatedText\<close> of Amazon's
  response. What a provider raises is taken not to be an \<^verbatim>\<open>ImportError\<close>, the one
  exception the constructors of the two SDK backends catch.
\<close>

record providers =
  googletrans_new :: "provider_exn option"
  google_api_build :: "pyval \<Rightarrow> provider_exn option"
  boto3_client :: "provider_exn option"
  googletrans_translate_one :: "string \<Rightarrow> string \<Rightarrow> string \<Rightarrow> provider_exn + string"
  googletrans_translate_many ::
    "string list \<Rightarrow> string \<Rightarrow> string \<Rightarrow> provider_exn + string list"
  google_api_list_execute ::
    "string \<Rightarrow> string \<Rightarrow> string list \<Rightarrow> provider_exn + string list"
  amazon_translate_text :: "string \<Rightarrow> string \<Rightarrow> string \<Rightarrow> provider_exn + string"

text \<open>
  The Python process: the attributes of \<^verbatim>\<open>django.conf.settings\<close>, what Django's
  \<^verbatim>\<open>import_string\<close> finds at a dotted path (no entry: it raises \<^verbatim>\<open>ImportError\<close>),
  which modules can be imported, and how the constructor of a class defined outside
  the package ends when called with no arguments (\<open>None\<close>: it returns).
  \<^verbatim>\<open>gettext\<close> is taken with no active catalogue: it returns its argument.
\<close>

record environment =
  settings :: "string \<rightharpoonup> pyval"
  import_table :: "string \<rightharpoonup> pyval"
  installed :: "string \<Rightarrow> bool"
  other_init :: "cls \<Rightarrow> exn option"

definition getattr :: "(string \<rightharpoonup> pyval) \<Rightarrow> string \<Rightarrow> pyval \<Rightarrow> pyval" where
  "getattr obj name dflt = (case obj name of None \<Rightarrow> dflt | Some v \<Rightarrow> v)"

definition import_string :: "environment \<Rightarrow> string \<Rightarrow> exn + pyval" where
  "import_string env dotted_path =
     (case import_table env dotted_path of
        None \<Rightarrow> Inl (ImportError dotted_path)
      | Some v \<Rightarrow> Inr v)"

section \<open>services.py: construction of the backends\<close>

text \<open>
  An instance of one of the classes. A \<^verbatim>\<open>GoogleAPITranslatorService\<close> keeps its
  \<^verbatim>\<open>developer_key\<close> and its \<^verbatim>\<open>max_segments\<close>, a Python integer.
\<close>

datatype translator =
    ObjectInstance
  | BaseInstance
  | GoogleInstance
  | GoogleAPIInstance pyval int
  | AmazonInstance
  | OtherInstance cls

fun class_of :: "translator \<Rightarrow> cls" where
  "class_of ObjectInstance = Object"
| "class_of BaseInstance = BaseTranslatorService"
| "class_of GoogleInstance = GoogleTranslatorService"
| "class_of (GoogleAPIInstance k m) = GoogleAPITranslatorService"
| "class_of AmazonInstance = AmazonTranslateTranslatorService"
| "class_of (OtherInstance c) = c"

definition GoogleTranslatorService_init ::
  "environment \<Rightarrow> providers \<Rightarrow> event list \<Rightarrow> (exn + translator) \<times> event list" where
  "GoogleTranslatorService_init env P log =
     (if \<not> installed env ''googletrans''
      then (Inl (ImportError (''No module named '' @ [CHR 0x27] @ ''googletrans'' @ [CHR 0x27])),
            log)
      else (case googletrans_new P of
              Some e \<Rightarrow> (Inl (PassThrough e), log @ [GoogletransTranslator])
            | None \<Rightarrow> (Inr GoogleInstance, log @ [GoogletransTranslator])))"

definition GoogleAPITranslatorService_init ::
  "environment \<Rightarrow> providers \<Rightarrow> int \<Rightarrow> event list \<Rightarrow> (exn + translator) \<times> event list" where
  "GoogleAPITranslatorService_init env P max_segments log =
     (if \<not> installed env ''googleapiclient.discovery''
      then (Inl (ImportError
              (''`GoogleAPITranslatorService` requires the '' @
               ''`google-api-python-client` package.'')), log)
      else
        (let developer_key = getattr (settings env) ''GOOGLE_TRANSLATE_KEY'' PyNone in
         if \<not> truthy developer_key
         then (Inl (ImproperlyConfigured
                 (''`GOOGLE_TRANSLATE_KEY` is not configured, it is required by '' @
                  ''`GoogleAPITranslatorService`'')), log)
         else (case google_api_build P developer_key of
                 Some e \<Rightarrow> (Inl (PassThrough e), log @ [GoogleApiBuild developer_key])
               | None \<Rightarrow> (Inr (GoogleAPIInstance developer_key max_segments),
                          log @ [GoogleApiBuild developer_key]))))"

definition AmazonTranslateTranslatorService_init ::
  "environment \<Rightarrow> providers \<Rightarrow> event list \<Rightarrow> (exn + translator) \<times> event list" where
  "AmazonTranslateTranslatorService_init env P log =
     (if \<not> installed env ''boto3''
      then (Inl (ImportError
              ''`AmazonTranslateTranslatorService` requires the `boto3` package''), log)
      else (case boto3_client P of
              Some e \<Rightarrow> (Inl (PassThrough e), log @ [Boto3Client])
            | None \<Rightarrow> (Inr AmazonInstance, log @ [Boto3Client])))"

text \<open>
  \<^verbatim>\<open>translator()\<close>: the class called with no arguments, so \<^verbatim>\<open>max_segments\<close> takes its
  default 128.
\<close>

fun construct ::
  "environment \<Rightarrow> providers \<Rightarrow> cls \<Rightarrow> event list \<Rightarrow> (exn + translator) \<times> event list" where
  "construct env P Object log = (Inr ObjectInstance, log)"
| "construct env P BaseTranslatorService log = (Inr BaseInstance, log)"
| "construct env P GoogleTranslatorService log = GoogleTranslatorService_init env P log"
| "construct env P GoogleAPITranslatorService log =
     GoogleAPITranslatorService_init env P 128 log"
| "construct env P AmazonTranslateTranslatorService log =
     AmazonTranslateTranslatorService_init env P log"
| "construct env P (OtherClass n bs) log =
     (case other_init env (OtherClass n bs) of
        Some e \<Rightarrow> (Inl e, log)
      | None \<Rightarrow> (Inr (OtherInstance (OtherClass n bs)), log))"

section \<open>config.py: the resolver\<close>

definition SERVICE_SETTING :: string where
  "SERVICE_SETTING = ''AUTOTRANSLATE_TRANSLATOR_SERVICE''"

definition could_not_import :: "pyval \<Rightarrow> string" where
  "could_not_import translator =
     ''Could not import the translator service '' @ [CHR 0x27] @ py_str translator @
     [CHR 0x27] @ '' specified in settings.'' @ SERVICE_SETTING @ ''.''"

definition does_not_subclass :: "pyval \<Rightarrow> string" where
  "does_not_subclass translator =
     ''The translator service '' @ [CHR 0x27] @ py_str translator @ [CHR 0x27] @
     '' specified in settings.'' @ SERVICE_SETTING @
     '' does not subclass BaseTranslatorService.''"

text \<open>
  \<^verbatim>\<open>get_translator\<close>, statement by statement: read the setting (default: the class
  \<^verbatim>\<open>GoogleTranslatorService\<close>); import it when it is a string; reject \<^verbatim>\<open>None\<close> and
  whatever fails \<^verbatim>\<open>issubclass(BaseTranslatorService, translator)\<close>, in this order of
  arguments; call the class. \<^verbatim>\<open>issubclass\<close> raises \<^verbatim>\<open>TypeError\<close> when its second
  argument is not a class.
\<close>

definition resolve :: "environment \<Rightarrow> pyval \<Rightarrow> exn + pyval" where
  "resolve env translator =
     (case translator of
        PyStr dotted_path \<Rightarrow>
          (case import_string env dotted_path of
             Inl ie \<Rightarrow> Inl (ImproperlyConfigured (could_not_import translator))
           | Inr v \<Rightarrow> Inr v)
      | PyNone \<Rightarrow> Inr translator
      | PyClass c \<Rightarrow> Inr translator
      | PyOther r b \<Rightarrow> Inr translator)"

definition get_translator ::
  "environment \<Rightarrow> providers \<Rightarrow> event list \<Rightarrow> (exn + translator) \<times> event list" where
  "get_translator env P log =
     (case resolve env (getattr (settings env) SERVICE_SETTING (PyClass GoogleTranslatorService)) of
        Inl e \<Rightarrow> (Inl e, log)
      | Inr translator \<Rightarrow>
          (case translator of
             PyNone \<Rightarrow> (Inl (ImproperlyConfigured (does_not_subclass translator)), log)
           | PyClass c \<Rightarrow>
               (if issubclass BaseTranslatorService c
                then construct env P c log
                else (Inl (ImproperlyConfigured (does_not_subclass translator)), log))
           | PyStr s \<Rightarrow>
               (Inl (TypeError ''issubclass() arg 2 must be a class, a tuple of classes, or a union''),
                log)
           | PyOther r b \<Rightarrow>
               (Inl (TypeError ''issubclass() arg 2 must be a class, a tuple of classes, or a union''),
                log)))"

section \<open>services.py: the translation methods\<close>

text \<open>
  A generator is a value that holds where its body is suspended; \<^verbatim>\<open>next\<close> runs the body
  to its next \<^verbatim>\<open>yield\<close>, to its end (\<^verbatim>\<open>StopIteration\<close>) or to an exception.
  \<^item> \<open>GenExpr\<close>: the generator expression \<^verbatim>\<open>(item.text for item in translations)\<close> of
    \<^verbatim>\<open>GoogleTranslatorService\<close>, with the texts it has not produced yet;
  \<^item> \<open>ApiHead\<close>: the body of \<^verbatim>\<open>GoogleAPITranslatorService.translate_strings\<close> at the
    test of its \<^verbatim>\<open>while\<close>, with \<^verbatim>\<open>self.max_segments\<close>, the two languages and the
    current \<^verbatim>\<open>strings\<close>;
  \<^item> \<open>ApiYieldFrom\<close>: the same body inside its \<^verbatim>\<open>yield from\<close>, with the texts of the
    current response still to yield (\<^verbatim>\<open>strings\<close> is sliced only afterwards);
  \<^item> \<open>AmazonFor\<close>: the \<^verbatim>\<open>for\<close> loop of
    \<^verbatim>\<open>AmazonTranslateTranslatorService.translate_strings\<close>, with the items left;
  \<^item> \<open>Finished\<close>: a generator that has returned or raised.
\<close>

datatype gen =
    GenExpr "string list"
  | ApiHead int string string "string list"
  | ApiYieldFrom int string string "string list" "string list"
  | AmazonFor string string "string list"
  | Finished

datatype step = Yield string | StopIteration | Raise exn

text \<open>Python's slices \<^verbatim>\<open>xs[:m]\<close> and \<^verbatim>\<open>xs[m:]\<close>; a negative \<open>m\<close> counts from the end.\<close>

definition py_slice_to :: "int \<Rightarrow> 'a list \<Rightarrow> 'a list" where
  "py_slice_to m xs =
     (if 0 \<le> m then take (nat m) xs else take (length xs - nat (- m)) xs)"

definition py_slice_from :: "int \<Rightarrow> 'a list \<Rightarrow> 'a list" where
  "py_slice_from m xs =
     (if 0 \<le> m then drop (nat m) xs else drop (length xs - nat (- m)) xs)"

subsection \<open>BaseTranslatorService\<close>

definition BaseTranslatorService_translate_string ::
  "string \<Rightarrow> string \<Rightarrow> string \<Rightarrow> event list \<Rightarrow> (exn + string) \<times> event list" where
  "BaseTranslatorService_translate_string text target_language source_language log =
     (Inl (NotImplementedError ''translate_string() must be overridden.''), log)"

definition BaseTranslatorService_translate_strings ::
  "string list \<Rightarrow> string \<Rightarrow> string \<Rightarrow> event list \<Rightarrow> (exn + gen) \<times> event list" where
  "BaseTranslatorService_translate_strings strings target_language source_language log =
     (Inl (NotImplementedError ''translate_strings() must be overridden.''), log)"

subsection \<open>GoogleTranslatorService\<close>

definition GoogleTranslatorService_translate_string ::
  "providers \<Rightarrow> string \<Rightarrow> string \<Rightarrow> string \<Rightarrow> event list \<Rightarrow> (exn + string) \<times> event list" where
  "GoogleTranslatorService_translate_string P text target_language source_language log =
     (case googletrans_translate_one P text target_language source_language of
        Inl e \<Rightarrow>
          (Inl (PassThrough e),
           log @ [GoogletransTranslateOne text target_language source_language])
      | Inr translated \<Rightarrow>
          (Inr translated,
           log @ [GoogletransTranslateOne text target_language source_language]))"

text \<open>
  Not a generator function: its body runs when it is called. It sends the one request for
  the whole list and returns a generator expression over the answer.
\<close>

definition GoogleTranslatorService_translate_strings ::
  "providers \<Rightarrow> string list \<Rightarrow> string \<Rightarrow> string \<Rightarrow> event list \<Rightarrow> (exn + gen) \<times> event list" where
  "GoogleTranslatorService_translate_strings P strings target_language source_language log =
     (case googletrans_translate_many P strings target_language source_language of
        Inl e \<Rightarrow>
          (Inl (PassThrough e),
           log @ [GoogletransTranslateMany strings target_language source_language])
      | Inr translations \<Rightarrow>
          (Inr (GenExpr translations),
           log @ [GoogletransTranslateMany strings target_language source_language]))"

subsection \<open>GoogleAPITranslatorService\<close>

text \<open>\<^verbatim>\<open>pop(0)\<close> on an empty \<^verbatim>\<open>translations\<close> list raises \<^verbatim>\<open>IndexError\<close>.\<close>

definition GoogleAPITranslatorService_translate_string ::
  "providers \<Rightarrow> string \<Rightarrow> string \<Rightarrow> string \<Rightarrow> event list \<Rightarrow> (exn + string) \<times> event list" where
  "GoogleAPITranslatorService_translate_string P text target_language source_language log =
     (case google_api_list_execute P source_language target_language [text] of
        Inl e \<Rightarrow>
          (Inl (PassThrough e), log @ [GoogleApiList source_language target_language [text]])
      | Inr translations \<Rightarrow>
          (case translations of
             [] \<Rightarrow>
               (Inl (IndexError ''pop from empty list''),
                log @ [GoogleApiList source_language target_language [text]])
           | translatedText # rest \<Rightarrow>
               (Inr translatedText,
                log @ [GoogleApiList source_language target_language [text]])))"

text \<open>
  A generator function (its body has a \<^verbatim>\<open>yield\<close>): the call only makes the generator,
  which starts at the head of the loop. The first argument is \<^verbatim>\<open>self.max_segments\<close>.
\<close>

definition GoogleAPITranslatorService_translate_strings ::
  "int \<Rightarrow> string list \<Rightarrow> string \<Rightarrow> string \<Rightarrow> event list \<Rightarrow> (exn + gen) \<times> event list" where
  "GoogleAPITranslatorService_translate_strings max_segments strings target_language
       source_language log =
     (Inr (ApiHead max_segments target_language source_language strings), log)"

subsection \<open>AmazonTranslateTranslatorService\<close>

definition AmazonTranslateTranslatorService_translate_string ::
  "providers \<Rightarrow> string \<Rightarrow> string \<Rightarrow> string \<Rightarrow> event list \<Rightarrow> (exn + string) \<times> event list" where
  "AmazonTranslateTranslatorService_translate_string P text target_language source_language log =
     (case amazon_translate_text P text source_language target_language of
        Inl e \<Rightarrow>
          (Inl (PassThrough e),
           log @ [AmazonTranslateText text source_language target_language])
      | Inr translated \<Rightarrow>
          (Inr translated,
           log @ [AmazonTranslateText text source_language target_language]))"

definition AmazonTranslateTranslatorService_translate_strings ::
  "string list \<Rightarrow> string \<Rightarrow> string \<Rightarrow> event list \<Rightarrow> (exn + gen) \<times> event list" where
  "AmazonTranslateTranslatorService_translate_strings strings target_language
       source_language log =
     (Inr (AmazonFor target_language source_language strings), log)"

subsection \<open>Running a generator\<close>

text \<open>
  \<open>gen_next P g log\<close> is \<^verbatim>\<open>next(g)\<close>: what it produces, the generator afterwards and the
  events afterwards. The \<^verbatim>\<open>while\<close> loop of the Google API backend can go round without
  yielding (an empty response) and need not end (a \<^verbatim>\<open>max_segments\<close> that does not
  shorten \<^verbatim>\<open>strings\<close>), so \<open>gen_next\<close> is a partial function: \<open>None\<close> is a call of
  \<^verbatim>\<open>next\<close> that never returns.
\<close>

partial_function (option) gen_next ::
  "providers \<Rightarrow> gen \<Rightarrow> event list \<Rightarrow> (step \<times> gen \<times> event list) option" where
  "gen_next P g log =
     (case g of
        GenExpr translations \<Rightarrow>
          (case translations of
             [] \<Rightarrow> Some (StopIteration, Finished, log)
           | item # rest \<Rightarrow> Some (Yield item, GenExpr rest, log))
      | ApiHead m tgt src strings \<Rightarrow>
          (if strings = [] then Some (StopIteration, Finished, log)
           else
             (case google_api_list_execute P src tgt (py_slice_to m strings) of
                Inl e \<Rightarrow>
                  Some (Raise (PassThrough e), Finished,
                        log @ [GoogleApiList src tgt (py_slice_to m strings)])
              | Inr translations \<Rightarrow>
                  gen_next P (ApiYieldFrom m tgt src strings translations)
                    (log @ [GoogleApiList src tgt (py_slice_to m strings)])))
      | ApiYieldFrom m tgt src strings translations \<Rightarrow>
          (case translations of
             [] \<Rightarrow> gen_next P (ApiHead m tgt src (py_slice_from m strings)) log
           | t # rest \<Rightarrow> Some (Yield t, ApiYieldFrom m tgt src strings rest, log))
      | AmazonFor tgt src strings \<Rightarrow>
          (case strings of
             [] \<Rightarrow> Some (StopIteration, Finished, log)
           | text # rest \<Rightarrow>
               (case AmazonTranslateTranslatorService_translate_string P text tgt src log of
                  (Inl e, log') \<Rightarrow> Some (Raise e, Finished, log')
                | (Inr translated, log') \<Rightarrow> Some (Yield translated, AmazonFor tgt src rest, log')))
      | Finished \<Rightarrow> Some (StopIteration, Finished, log))"

text \<open>
  \<open>consume P g acc log\<close> iterates \<open>g\<close> to its end, as a \<^verbatim>\<open>for\<close> loop or \<^verbatim>\<open>list(g)\<close>
  does: the texts produced (after those of \<open>acc\<close>), the exception that ended the iteration
  if one did, and the events afterwards.
\<close>

partial_function (option) consume ::
  "providers \<Rightarrow> gen \<Rightarrow> string list \<Rightarrow> event list \<Rightarrow>
     (string list \<times> exn option \<times> event list) option" where
  "consume P g acc log =
     (case gen_next P g log of
        None \<Rightarrow> None
      | Some (produced, g', log') \<Rightarrow>
          (case produced of
             Yield t \<Rightarrow> consume P g' (acc @ [t]) log'
           | StopIteration \<Rightarrow> Some (acc, None, log')
           | Raise e \<Rightarrow> Some (acc, Some e, log')))"

declare gen_next.simps [code]
declare consume.simps [code]

section \<open>Auxiliary notions for the statements\<close>

text \<open>
  The consecutive slices of a list, \<open>M\<close> items each (the last one shorter when \<open>M\<close> does
  not divide the length): slice \<open>i\<close> is items \<open>i * M\<close> up to \<open>(i + 1) * M\<close>, and there are
  \<open>(N + M - 1) div M\<close> of them, which is \<open>N / M\<close> rounded up.
\<close>

definition slices :: "nat \<Rightarrow> 'a list \<Rightarrow> 'a list list" where
  "slices M S = map (\<lambda>i. take M (drop (i * M) S)) [0 ..< (length S + M - 1) div M]"

text \<open>
  A provider that answers every request, one text per item and in the order of the
  request (the text prefixed by the target language), and whose clients all construct.
\<close>

definition echo_providers :: providers where
  "echo_providers =
     \<lparr>googletrans_new = None, google_api_build = (\<lambda>k. None), boto3_client = None,
      googletrans_translate_one = (\<lambda>text dest src. Inr (dest @ '':'' @ text)),
      googletrans_translate_many = (\<lambda>q dest src. Inr (map (\<lambda>text. dest @ '':'' @ text) q)),
      google_api_list_execute = (\<lambda>src tgt q. Inr (map (\<lambda>text. tgt @ '':'' @ text) q)),
      amazon_translate_text = (\<lambda>text src tgt. Inr (tgt @ '':'' @ text))\<rparr>"

text \<open>
  A process with the given settings, in which every module can be imported and
  \<^verbatim>\<open>import_string\<close> finds the classes of the package and \<^verbatim>\<open>builtins.object\<close>.
\<close>

definition process_with :: "(string \<rightharpoonup> pyval) \<Rightarrow> environment" where
  "process_with st =
     \<lparr>settings = st,
      import_table =
        [''builtins.object'' \<mapsto> PyClass Object,
         ''autotranslate.services.BaseTranslatorService'' \<mapsto> PyClass BaseTranslatorService,
         ''autotranslate.services.GoogleTranslatorService'' \<mapsto> PyClass GoogleTranslatorService,
         ''autotranslate.services.GoogleAPITranslatorService'' \<mapsto>
           PyClass GoogleAPITranslatorService,
         ''autotranslate.services.AmazonTranslateTranslatorService'' \<mapsto>
           PyClass AmazonTranslateTranslatorService],
      installed = (\<lambda>module. True),
      other_init = (\<lambda>c. None)\<rparr>"

section \<open>The resolver\<close>

lemma issubclass_Base_iff:
  "issubclass BaseTranslatorService c = (c = BaseTranslatorService \<or> c = Object)"
  by simp

text \<open>
  The test of \<^verbatim>\<open>get_translator\<close> asks whether \<^verbatim>\<open>BaseTranslatorService\<close> is a subclass
  of the configured class, so it rejects every proper subclass of
  \<^verbatim>\<open>BaseTranslatorService\<close> and lets \<^verbatim>\<open>object\<close> through.
\<close>

lemma get_translator_proper_subclass:
  assumes "settings env SERVICE_SETTING = Some (PyClass c)"
      and "issubclass c BaseTranslatorService" and "c \<noteq> BaseTranslatorService"
  shows "get_translator env P log =
           (Inl (ImproperlyConfigured (does_not_subclass (PyClass c))), log)"
proof -
  have "c \<noteq> Object" using assms(2) by auto
  with assms show ?thesis
    by (simp add: get_translator_def resolve_def getattr_def)
qed

lemma get_translator_class:
  assumes "settings env SERVICE_SETTING = Some (PyClass c)"
  shows "get_translator env P log =
           (if c = BaseTranslatorService \<or> c = Object then construct env P c log
            else (Inl (ImproperlyConfigured (does_not_subclass (PyClass c))), log))"
  using assms by (simp add: get_translator_def resolve_def getattr_def)

lemma get_translator_unresolvable:
  assumes "settings env SERVICE_SETTING = Some (PyStr path)"
      and "import_table env path = None"
  shows "get_translator env P log =
           (Inl (ImproperlyConfigured (could_not_import (PyStr path))), log)"
  using assms by (simp add: get_translator_def resolve_def getattr_def import_string_def)

text \<open>
  C1 (the code departs from it). The claim: a setting that names a conforming backend
  type, directly or by dotted path, makes \<^verbatim>\<open>get_translator\<close> return a new instance of
  that type. On the code, with the setting the class
  \<^verbatim>\<open>AmazonTranslateTranslatorService\<close> itself, or its dotted path, and every module
  installed, \<^verbatim>\<open>get_translator\<close> raises \<^verbatim>\<open>ImproperlyConfigured\<close> with the message
  that the class does not subclass \<^verbatim>\<open>BaseTranslatorService\<close>, and constructs nothing.
\<close>

theorem get_translator_rejects_conforming_backend:
  "get_translator
     (process_with [''AUTOTRANSLATE_TRANSLATOR_SERVICE'' \<mapsto>
        PyClass AmazonTranslateTranslatorService]) echo_providers []
   = (Inl (ImproperlyConfigured
        (''The translator service '' @ [CHR 0x27] @ ''<class '' @ [CHR 0x27] @
         ''autotranslate.services.AmazonTranslateTranslatorService'' @ [CHR 0x27] @ ''>'' @
         [CHR 0x27] @ '' specified in settings.AUTOTRANSLATE_TRANSLATOR_SERVICE'' @
         '' does not subclass BaseTranslatorService.'')), [])
   \<and> get_translator
     (process_with [''AUTOTRANSLATE_TRANSLATOR_SERVICE'' \<mapsto>
        PyStr ''autotranslate.services.AmazonTranslateTranslatorService'']) echo_providers []
   = (Inl (ImproperlyConfigured
        (''The translator service '' @ [CHR 0x27] @ ''<class '' @ [CHR 0x27] @
         ''autotranslate.services.AmazonTranslateTranslatorService'' @ [CHR 0x27] @ ''>'' @
         [CHR 0x27] @ '' specified in settings.AUTOTRANSLATE_TRANSLATOR_SERVICE'' @
         '' does not subclass BaseTranslatorService.'')), [])"
  by (simp add: get_translator_def resolve_def getattr_def SERVICE_SETTING_def
      does_not_subclass_def process_with_def import_string_def)

text \<open>
  C2 (the code departs from it). The claim: a setting that is a non-conforming type or an
  unresolvable path makes \<^verbatim>\<open>get_translator\<close> raise \<^verbatim>\<open>ImproperlyConfigured\<close>. On the
  code, with the setting the class \<^verbatim>\<open>object\<close>, which has neither translation method,
  or its dotted path \<^verbatim>\<open>builtins.object\<close>, \<^verbatim>\<open>get_translator\<close> raises nothing and
  returns a plain \<^verbatim>\<open>object()\<close>. (An unresolvable path is rejected as claimed:
  \<open>get_translator_unresolvable\<close>.)
\<close>

theorem get_translator_accepts_object:
  "get_translator
     (process_with [''AUTOTRANSLATE_TRANSLATOR_SERVICE'' \<mapsto> PyClass Object])
     echo_providers [] = (Inr ObjectInstance, [])
   \<and> get_translator
     (process_with [''AUTOTRANSLATE_TRANSLATOR_SERVICE'' \<mapsto> PyStr ''builtins.object''])
     echo_providers [] = (Inr ObjectInstance, [])"
  by (simp add: get_translator_def resolve_def getattr_def SERVICE_SETTING_def
      process_with_def import_string_def)

text \<open>
  C7 (the code departs from it). The claim: with the setting absent, \<^verbatim>\<open>get_translator\<close>
  returns an instance of the default backend \<^verbatim>\<open>GoogleTranslatorService\<close>. On the code,
  with no setting at all and every module installed, the default class is selected and
  then rejected: \<^verbatim>\<open>get_translator\<close> raises \<^verbatim>\<open>ImproperlyConfigured\<close> and constructs
  nothing.
\<close>

theorem get_translator_rejects_default:
  "get_translator (process_with Map.empty) echo_providers []
   = (Inl (ImproperlyConfigured
        (''The translator service '' @ [CHR 0x27] @ ''<class '' @ [CHR 0x27] @
         ''autotranslate.services.GoogleTranslatorService'' @ [CHR 0x27] @ ''>'' @
         [CHR 0x27] @ '' specified in settings.AUTOTRANSLATE_TRANSLATOR_SERVICE'' @
         '' does not subclass BaseTranslatorService.'')), [])"
  by (simp add: get_translator_def resolve_def getattr_def SERVICE_SETTING_def
      does_not_subclass_def process_with_def)

section \<open>Construction of the backends\<close>

text \<open>
  C6, as the code has it. When the module \<^verbatim>\<open>googleapiclient.discovery\<close> can be imported
  and the setting \<^verbatim>\<open>GOOGLE_TRANSLATE_KEY\<close> is absent or falsy, constructing
  \<^verbatim>\<open>GoogleAPITranslatorService\<close> (with any \<^verbatim>\<open>max_segments\<close>) raises
  \<^verbatim>\<open>ImproperlyConfigured\<close> with a message naming the setting and the service, and the
  events are unchanged: no client was built and no request sent.
\<close>

theorem GoogleAPITranslatorService_init_without_key:
  assumes "installed env ''googleapiclient.discovery''"
      and "\<not> truthy (getattr (settings env) ''GOOGLE_TRANSLATE_KEY'' PyNone)"
  shows "GoogleAPITranslatorService_init env P max_segments log =
    (Inl (ImproperlyConfigured
       (''`GOOGLE_TRANSLATE_KEY` is not configured, it is required by '' @
        ''`GoogleAPITranslatorService`'')), log)"
  using assms by (simp add: GoogleAPITranslatorService_init_def)

theorem GoogleAPITranslatorService_init_without_key_witness:
  "installed (process_with [''GOOGLE_TRANSLATE_KEY'' \<mapsto> PyStr []]) ''googleapiclient.discovery''
   \<and> \<not> truthy (getattr (settings (process_with [''GOOGLE_TRANSLATE_KEY'' \<mapsto> PyStr []]))
          ''GOOGLE_TRANSLATE_KEY'' PyNone)
   \<and> GoogleAPITranslatorService_init (process_with [''GOOGLE_TRANSLATE_KEY'' \<mapsto> PyStr []])
        echo_providers 128 [] =
      (Inl (ImproperlyConfigured
         (''`GOOGLE_TRANSLATE_KEY` is not configured, it is required by '' @
          ''`GoogleAPITranslatorService`'')), [])"
proof -
  have 1: "installed (process_with [''GOOGLE_TRANSLATE_KEY'' \<mapsto> PyStr []])
             ''googleapiclient.discovery''"
    by (simp add: process_with_def)
  have 2: "\<not> truthy (getattr (settings (process_with [''GOOGLE_TRANSLATE_KEY'' \<mapsto> PyStr []]))
             ''GOOGLE_TRANSLATE_KEY'' PyNone)"
    by (simp add: process_with_def getattr_def)
  show ?thesis
    using 1 2 GoogleAPITranslatorService_init_without_key [OF 1 2, of echo_providers 128 "[]"]
    by simp
qed

text \<open>
  The claim C6 as stated does not hold: with the setting absent and the module
  \<^verbatim>\<open>googleapiclient.discovery\<close> not importable, the import inside the constructor fails
  first and the constructor raises \<^verbatim>\<open>ImportError\<close>, not \<^verbatim>\<open>ImproperlyConfigured\<close>.
\<close>

theorem GoogleAPITranslatorService_init_without_key_counterexample:
  "settings ((process_with Map.empty)\<lparr>installed := (\<lambda>module. False)\<rparr>)
     ''GOOGLE_TRANSLATE_KEY'' = None
   \<and> GoogleAPITranslatorService_init
       ((process_with Map.empty)\<lparr>installed := (\<lambda>module. False)\<rparr>) echo_providers 128 [] =
     (Inl (ImportError
        (''`GoogleAPITranslatorService` requires the '' @
         ''`google-api-python-client` package.'')), [])"
  by (simp add: GoogleAPITranslatorService_init_def process_with_def)

text \<open>
  C9. When the module \<^verbatim>\<open>boto3\<close> cannot be imported, constructing
  \<^verbatim>\<open>AmazonTranslateTranslatorService\<close> raises \<^verbatim>\<open>ImportError\<close> with a message naming
  the service and the package \<^verbatim>\<open>boto3\<close>, at once: the events are unchanged, no client
  was asked for.
\<close>

theorem AmazonTranslateTranslatorService_init_without_boto3:
  assumes "\<not> installed env ''boto3''"
  shows "AmazonTranslateTranslatorService_init env P log =
    (Inl (ImportError ''`AmazonTranslateTranslatorService` requires the `boto3` package''),
     log)"
  using assms by (simp add: AmazonTranslateTranslatorService_init_def)

theorem AmazonTranslateTranslatorService_init_without_boto3_witness:
  "\<not> installed ((process_with Map.empty)\<lparr>installed := (\<lambda>module. module \<noteq> ''boto3'')\<rparr>) ''boto3''
   \<and> AmazonTranslateTranslatorService_init
       ((process_with Map.empty)\<lparr>installed := (\<lambda>module. module \<noteq> ''boto3'')\<rparr>)
       echo_providers [] =
     (Inl (ImportError ''`AmazonTranslateTranslatorService` requires the `boto3` package''),
      [])"
proof -
  have 1: "\<not> installed ((process_with Map.empty)\<lparr>installed := (\<lambda>module. module \<noteq> ''boto3'')\<rparr>)
             ''boto3''"
    by simp
  show ?thesis
    using 1 AmazonTranslateTranslatorService_init_without_boto3 [OF 1, of echo_providers "[]"]
    by simp
qed

section \<open>Generators\<close>

lemma gen_next_GenExpr:
  "gen_next P (GenExpr ts) log =
     Some (case ts of [] \<Rightarrow> (StopIteration, Finished, log)
                    | t # rest \<Rightarrow> (Yield t, GenExpr rest, log))"
  by (subst gen_next.simps) (simp split: list.splits)

lemma gen_next_Finished: "gen_next P Finished log = Some (StopIteration, Finished, log)"
  by (subst gen_next.simps) simp

lemma consume_GenExpr: "consume P (GenExpr ts) acc log = Some (acc @ ts, None, log)"
proof (induction ts arbitrary: acc)
  case Nil
  show ?case by (subst consume.simps) (simp add: gen_next_GenExpr)
next
  case (Cons t ts)
  show ?case by (subst consume.simps) (simp add: gen_next_GenExpr Cons.IH)
qed

text \<open>
  C10. \<^verbatim>\<open>GoogleTranslatorService.translate_strings\<close> sends its one request, for the whole
  list, during the call: whatever the provider does, the call adds exactly that request to
  the events. A provider error is the result of the call itself; otherwise the result is
  a generator over the texts already fetched. Iterating that generator, step by step or
  to its end, with any providers at all (\<open>P'\<close>), produces those texts and adds no event.
\<close>

theorem GoogleTranslatorService_translate_strings_eager:
  "snd (GoogleTranslatorService_translate_strings P S tgt src log) =
     log @ [GoogletransTranslateMany S tgt src]
   \<and> fst (GoogleTranslatorService_translate_strings P S tgt src log) =
     (case googletrans_translate_many P S tgt src of
        Inl e \<Rightarrow> Inl (PassThrough e)
      | Inr translations \<Rightarrow> Inr (GenExpr translations))
   \<and> gen_next P' (GenExpr translations) log' =
     Some (case translations of
             [] \<Rightarrow> (StopIteration, Finished, log')
           | t # rest \<Rightarrow> (Yield t, GenExpr rest, log'))
   \<and> consume P' (GenExpr translations) [] log' = Some (translations, None, log')"
  by (simp add: GoogleTranslatorService_translate_strings_def gen_next_GenExpr
      consume_GenExpr split: sum.splits)

subsection \<open>Slices\<close>

lemma ceil_Suc:
  assumes "0 < (M::nat)" and "0 < N"
  shows "(N + M - 1) div M = Suc ((N - 1) div M)"
proof -
  have "N + M - 1 = (N - 1) + M" using assms by simp
  then have "(N + M - 1) div M = ((N - 1) + M) div M" by simp
  also have "\<dots> = Suc ((N - 1) div M)"
    using div_add_self2 [of M "N - 1"] assms(1) by simp
  finally show ?thesis .
qed

lemma ceil_step:
  assumes "0 < (M::nat)" and "0 < N"
  shows "(N + M - 1) div M = Suc ((N - M + M - 1) div M)"
proof (cases "M \<le> N")
  case True
  then have "N - M + M - 1 = N - 1" by simp
  then show ?thesis using ceil_Suc [OF assms] by simp
next
  case False
  then have "N - M + M - 1 = M - 1" "N - 1 < M" by simp_all
  then have "(N - M + M - 1) div M = 0" "(N - 1) div M = 0" using assms by simp_all
  then show ?thesis using ceil_Suc [OF assms] by simp
qed

lemma slices_Nil: "0 < M \<Longrightarrow> slices M [] = []"
  by (simp add: slices_def)

lemma slices_Cons:
  assumes "0 < M" and "S \<noteq> []"
  shows "slices M S = take M S # slices M (drop M S)"
proof -
  have N: "0 < length S" using assms by simp
  let ?k = "(length (drop M S) + M - 1) div M"
  have k: "(length S + M - 1) div M = Suc ?k"
    using ceil_step [OF assms(1) N] by simp
  have "[0 ..< Suc ?k] = 0 # map Suc [0 ..< ?k]"
    by (simp only: map_Suc_upt upt_conv_Cons [of 0 "Suc ?k"] zero_less_Suc)
  then have "slices M S = take M (drop (0 * M) S) # map (\<lambda>i. take M (drop (Suc i * M) S)) [0 ..< ?k]"
    unfolding slices_def k by (simp only: list.map map_map comp_def)
  moreover have "\<And>i. drop (Suc i * M) S = drop (i * M) (drop M S)"
    by (simp add: add.commute)
  ultimately show ?thesis
    by (simp add: slices_def)
qed

lemma length_slices: "length (slices M S) = (length S + M - 1) div M"
  by (simp add: slices_def)

lemma concat_slices:
  assumes "0 < M"
  shows "concat (slices M S) = S"
proof (induction "length S" arbitrary: S rule: less_induct)
  case less
  show ?case
  proof (cases "S = []")
    case True
    then show ?thesis using assms by (simp add: slices_Nil)
  next
    case False
    then have "length (drop M S) < length S" using assms by simp
    then have "concat (slices M (drop M S)) = drop M S" by (rule less)
    then show ?thesis using False assms by (simp add: slices_Cons)
  qed
qed

lemma slices_le: "q \<in> set (slices M S) \<Longrightarrow> length q \<le> M"
  by (auto simp: slices_def)

lemma concat_map_slices:
  assumes "0 < M"
  shows "concat (map (map f) (slices M S)) = map f S"
proof -
  have "concat (map (map f) (slices M S)) = map f (concat (slices M S))"
    by (simp add: map_concat)
  then show ?thesis using assms by (simp add: concat_slices)
qed

subsection \<open>The generator of the Google API backend\<close>

lemma py_slice_to_nat: "py_slice_to (int M) xs = take M xs"
  by (simp add: py_slice_to_def)

lemma py_slice_from_nat: "py_slice_from (int M) xs = drop M xs"
  by (simp add: py_slice_from_def)

lemma consume_cong:
  assumes "gen_next P g log = gen_next P g' log'"
  shows "consume P g acc log = consume P g' acc log'"
  by (simp add: consume.simps [of P g acc log] consume.simps [of P g' acc log'] assms)

lemma gen_next_ApiYieldFrom_Nil:
  "gen_next P (ApiYieldFrom m tgt src s []) log =
   gen_next P (ApiHead m tgt src (py_slice_from m s)) log"
  by (subst gen_next.simps) simp

lemma gen_next_ApiYieldFrom_Cons:
  "gen_next P (ApiYieldFrom m tgt src s (t # ts)) log =
   Some (Yield t, ApiYieldFrom m tgt src s ts, log)"
  by (subst gen_next.simps) simp

lemma gen_next_ApiHead_Nil:
  "gen_next P (ApiHead m tgt src []) log = Some (StopIteration, Finished, log)"
  by (subst gen_next.simps) simp

lemma gen_next_ApiHead_answer:
  assumes "s \<noteq> []" and "google_api_list_execute P src tgt (py_slice_to m s) = Inr ts"
  shows "gen_next P (ApiHead m tgt src s) log =
         gen_next P (ApiYieldFrom m tgt src s ts) (log @ [GoogleApiList src tgt (py_slice_to m s)])"
  using assms by (subst gen_next.simps) simp

lemma gen_next_ApiHead_raise:
  assumes "s \<noteq> []" and "google_api_list_execute P src tgt (py_slice_to m s) = Inl e"
  shows "gen_next P (ApiHead m tgt src s) log =
         Some (Raise (PassThrough e), Finished, log @ [GoogleApiList src tgt (py_slice_to m s)])"
  using assms by (subst gen_next.simps) simp

lemma consume_ApiYieldFrom:
  "consume P (ApiYieldFrom m tgt src s ts) acc log =
   consume P (ApiHead m tgt src (py_slice_from m s)) (acc @ ts) log"
proof (induction ts arbitrary: acc)
  case Nil
  show ?case using consume_cong [OF gen_next_ApiYieldFrom_Nil] by simp
next
  case (Cons t ts)
  have "consume P (ApiYieldFrom m tgt src s (t # ts)) acc log =
        consume P (ApiYieldFrom m tgt src s ts) (acc @ [t]) log"
    by (subst consume.simps) (simp add: gen_next_ApiYieldFrom_Cons)
  then show ?case by (simp add: Cons.IH)
qed

lemma consume_ApiHead:
  assumes M: "0 < M"
      and ok: "\<And>q. google_api_list_execute P src tgt q = Inr (resp q)"
  shows "consume P (ApiHead (int M) tgt src S) acc log =
         Some (acc @ concat (map resp (slices M S)), None,
               log @ map (GoogleApiList src tgt) (slices M S))"
proof (induction "length S" arbitrary: S acc log rule: less_induct)
  case less
  show ?case
  proof (cases "S = []")
    case True
    have "consume P (ApiHead (int M) tgt src []) acc log = Some (acc, None, log)"
      by (subst consume.simps) (simp add: gen_next_ApiHead_Nil)
    then show ?thesis using True M by (simp add: slices_Nil)
  next
    case False
    have lt: "length (drop M S) < length S" using False M by simp
    have "consume P (ApiHead (int M) tgt src S) acc log =
          consume P (ApiYieldFrom (int M) tgt src S (resp (take M S))) acc
            (log @ [GoogleApiList src tgt (take M S)])"
      using consume_cong [OF gen_next_ApiHead_answer [OF False, of P src tgt "int M" "resp (take M S)" log]]
      by (simp add: py_slice_to_nat ok)
    also have "\<dots> = consume P (ApiHead (int M) tgt src (drop M S)) (acc @ resp (take M S))
            (log @ [GoogleApiList src tgt (take M S)])"
      by (simp add: consume_ApiYieldFrom py_slice_from_nat)
    also have "\<dots> = Some ((acc @ resp (take M S)) @ concat (map resp (slices M (drop M S))), None,
               (log @ [GoogleApiList src tgt (take M S)]) @ map (GoogleApiList src tgt) (slices M (drop M S)))"
      by (rule less [OF lt])
    finally show ?thesis using False M by (simp add: slices_Cons)
  qed
qed

subsection \<open>The generator of the Amazon backend\<close>

lemma Amazon_translate_string_ok:
  assumes "amazon_translate_text P text src tgt = Inr r"
  shows "AmazonTranslateTranslatorService_translate_string P text tgt src log =
         (Inr r, log @ [AmazonTranslateText text src tgt])"
  using assms by (simp add: AmazonTranslateTranslatorService_translate_string_def)

lemma gen_next_AmazonFor_Nil:
  "gen_next P (AmazonFor tgt src []) log = Some (StopIteration, Finished, log)"
  by (subst gen_next.simps) simp

lemma gen_next_AmazonFor_Cons:
  "gen_next P (AmazonFor tgt src (text # rest)) log =
     (case AmazonTranslateTranslatorService_translate_string P text tgt src log of
        (Inl e, log') \<Rightarrow> Some (Raise e, Finished, log')
      | (Inr translated, log') \<Rightarrow> Some (Yield translated, AmazonFor tgt src rest, log'))"
  by (subst gen_next.simps) simp

lemma consume_AmazonFor:
  assumes ok: "\<And>text. amazon_translate_text P text src tgt = Inr (f text)"
  shows "consume P (AmazonFor tgt src S) acc log =
         Some (acc @ map f S, None, log @ map (\<lambda>text. AmazonTranslateText text src tgt) S)"
proof (induction S arbitrary: acc log)
  case Nil
  show ?case by (subst consume.simps) (simp add: gen_next_AmazonFor_Nil)
next
  case (Cons x S)
  show ?case
    by (subst consume.simps)
       (simp add: gen_next_AmazonFor_Cons Amazon_translate_string_ok [OF ok] Cons.IH)
qed

subsection \<open>What no generator does, and a generator that never answers\<close>

text \<open>
  The two runners are partial functions, so a fact about every result they return is
  proved by induction over their unfolding.
\<close>

lemma gen_next_not_NotImplemented:
  assumes "gen_next P g log = Some y"
  shows "fst y \<noteq> Raise (NotImplementedError m)"
proof (rule gen_next.raw_induct
    [where Pa = "\<lambda>x y. fst y \<noteq> Raise (NotImplementedError m)", OF _ assms])
  fix gn :: "providers \<Rightarrow> gen \<Rightarrow> event list \<Rightarrow> (step \<times> gen \<times> event list) option"
  fix P g log y
  assume IH: "\<And>P g log y. gn P g log = Some y \<Longrightarrow> fst y \<noteq> Raise (NotImplementedError m)"
  assume body: "(case g of
        GenExpr translations \<Rightarrow>
          (case translations of
             [] \<Rightarrow> Some (StopIteration, Finished, log)
           | item # rest \<Rightarrow> Some (Yield item, GenExpr rest, log))
      | ApiHead m tgt src strings \<Rightarrow>
          (if strings = [] then Some (StopIteration, Finished, log)
           else
             (case google_api_list_execute P src tgt (py_slice_to m strings) of
                Inl e \<Rightarrow>
                  Some (Raise (PassThrough e), Finished,
                        log @ [GoogleApiList src tgt (py_slice_to m strings)])
              | Inr translations \<Rightarrow>
                  gn P (ApiYieldFrom m tgt src strings translations)
                    (log @ [GoogleApiList src tgt (py_slice_to m strings)])))
      | ApiYieldFrom m tgt src strings translations \<Rightarrow>
          (case translations of
             [] \<Rightarrow> gn P (ApiHead m tgt src (py_slice_from m strings)) log
           | t # rest \<Rightarrow> Some (Yield t, ApiYieldFrom m tgt src strings rest, log))
      | AmazonFor tgt src strings \<Rightarrow>
          (case strings of
             [] \<Rightarrow> Some (StopIteration, Finished, log)
           | text # rest \<Rightarrow>
               (case AmazonTranslateTranslatorService_translate_string P text tgt src log of
                  (Inl e, log') \<Rightarrow> Some (Raise e, Finished, log')
                | (Inr translated, log') \<Rightarrow> Some (Yield translated, AmazonFor tgt src rest, log')))
      | Finished \<Rightarrow> Some (StopIteration, Finished, log)) = Some y"
  show "fst y \<noteq> Raise (NotImplementedError m)"
  proof (cases g)
    case (GenExpr ts)
    then show ?thesis using body by (auto split: list.splits)
  next
    case (ApiHead m' tgt src strings)
    then show ?thesis using body IH by (auto split: if_splits sum.splits)
  next
    case (ApiYieldFrom m' tgt src strings ts)
    then show ?thesis using body IH by (auto split: list.splits)
  next
    case (AmazonFor tgt src strings)
    then show ?thesis using body
      by (auto split: list.splits sum.splits
          simp: AmazonTranslateTranslatorService_translate_string_def)
  next
    case Finished
    then show ?thesis using body by auto
  qed
qed


lemma consume_not_NotImplemented:
  assumes "consume P g acc log = Some y"
  shows "fst (snd y) \<noteq> Some (NotImplementedError m)"
proof (rule consume.raw_induct
    [where Pa = "\<lambda>x y. fst (snd y) \<noteq> Some (NotImplementedError m)", OF _ assms])
  fix cn :: "providers \<Rightarrow> gen \<Rightarrow> string list \<Rightarrow> event list \<Rightarrow>
     (string list \<times> exn option \<times> event list) option"
  fix P g acc log y
  assume IH: "\<And>P g acc log y. cn P g acc log = Some y \<Longrightarrow>
                fst (snd y) \<noteq> Some (NotImplementedError m)"
  assume body: "(case gen_next P g log of
        None \<Rightarrow> None
      | Some (produced, g', log') \<Rightarrow>
          (case produced of
             Yield t \<Rightarrow> cn P g' (acc @ [t]) log'
           | StopIteration \<Rightarrow> Some (acc, None, log')
           | Raise e \<Rightarrow> Some (acc, Some e, log'))) = Some y"
  show "fst (snd y) \<noteq> Some (NotImplementedError m)"
  proof (cases "gen_next P g log")
    case None
    then show ?thesis using body by simp
  next
    case (Some r)
    obtain produced g' log' where r: "r = (produced, g', log')" by (cases r) auto
    have np: "produced \<noteq> Raise (NotImplementedError m)"
      using gen_next_not_NotImplemented [OF Some] r by simp
    show ?thesis
    proof (cases produced)
      case (Yield t)
      then have "cn P g' (acc @ [t]) log' = Some y" using body Some r by simp
      then show ?thesis by (rule IH)
    next
      case StopIteration
      then have "y = (acc, None, log')" using body Some r by simp
      then show ?thesis by simp
    next
      case (Raise e)
      then have "y = (acc, Some e, log')" using body Some r by simp
      then show ?thesis using np Raise by simp
    qed
  qed
qed


lemma gen_next_stuck_aux:
  assumes e: "google_api_list_execute P0 src0 tgt0 [] = Inr []" and s: "s0 \<noteq> []"
      and r: "gen_next P g log = Some y"
  shows "\<not> (P = P0 \<and> (g = ApiHead 0 tgt0 src0 s0 \<or> g = ApiYieldFrom 0 tgt0 src0 s0 []))"
proof -
  let ?Q = "\<lambda>(x :: (providers \<times> gen) \<times> event list) (y :: step \<times> gen \<times> event list).
      \<not> (fst (fst x) = P0 \<and>
         (snd (fst x) = ApiHead 0 tgt0 src0 s0 \<or> snd (fst x) = ApiYieldFrom 0 tgt0 src0 s0 []))"
  have "?Q ((P, g), log) y"
  proof (rule gen_next.raw_induct [where Pa = ?Q, OF _ r])
    fix gn :: "providers \<Rightarrow> gen \<Rightarrow> event list \<Rightarrow> (step \<times> gen \<times> event list) option"
    fix P g log y
    assume IH0: "\<And>P g log y. gn P g log = Some y \<Longrightarrow> ?Q ((P, g), log) y"
    assume body: "(case g of
        GenExpr translations \<Rightarrow>
          (case translations of
             [] \<Rightarrow> Some (StopIteration, Finished, log)
           | item # rest \<Rightarrow> Some (Yield item, GenExpr rest, log))
      | ApiHead m tgt src strings \<Rightarrow>
          (if strings = [] then Some (StopIteration, Finished, log)
           else
             (case google_api_list_execute P src tgt (py_slice_to m strings) of
                Inl e \<Rightarrow>
                  Some (Raise (PassThrough e), Finished,
                        log @ [GoogleApiList src tgt (py_slice_to m strings)])
              | Inr translations \<Rightarrow>
                  gn P (ApiYieldFrom m tgt src strings translations)
                    (log @ [GoogleApiList src tgt (py_slice_to m strings)])))
      | ApiYieldFrom m tgt src strings translations \<Rightarrow>
          (case translations of
             [] \<Rightarrow> gn P (ApiHead m tgt src (py_slice_from m strings)) log
           | t # rest \<Rightarrow> Some (Yield t, ApiYieldFrom m tgt src strings rest, log))
      | AmazonFor tgt src strings \<Rightarrow>
          (case strings of
             [] \<Rightarrow> Some (StopIteration, Finished, log)
           | text # rest \<Rightarrow>
               (case AmazonTranslateTranslatorService_translate_string P text tgt src log of
                  (Inl e, log') \<Rightarrow> Some (Raise e, Finished, log')
                | (Inr translated, log') \<Rightarrow> Some (Yield translated, AmazonFor tgt src rest, log')))
      | Finished \<Rightarrow> Some (StopIteration, Finished, log)) = Some y"
    have IH: "\<And>l y. gn P0 (ApiHead 0 tgt0 src0 s0) l \<noteq> Some y"
             "\<And>l y. gn P0 (ApiYieldFrom 0 tgt0 src0 s0 []) l \<noteq> Some y"
      using IH0 by fastforce+
    have "\<not> (P = P0 \<and> (g = ApiHead 0 tgt0 src0 s0 \<or> g = ApiYieldFrom 0 tgt0 src0 s0 []))"
    proof
      assume a: "P = P0 \<and> (g = ApiHead 0 tgt0 src0 s0 \<or> g = ApiYieldFrom 0 tgt0 src0 s0 [])"
      then consider "g = ApiHead 0 tgt0 src0 s0" | "g = ApiYieldFrom 0 tgt0 src0 s0 []" by blast
      then show False
      proof cases
        case 1
        then have "gn P0 (ApiYieldFrom 0 tgt0 src0 s0 []) (log @ [GoogleApiList src0 tgt0 []]) = Some y"
          using body a s e by (simp add: py_slice_to_def)
        then show False using IH(2) by simp
      next
        case 2
        then have "gn P0 (ApiHead 0 tgt0 src0 s0) log = Some y"
          using body a by (simp add: py_slice_from_def)
        then show False using IH(1) by simp
      qed
    qed
    then show "?Q ((P, g), log) y" by simp
  qed
  then show ?thesis by simp
qed

lemma gen_next_stuck:
  assumes "google_api_list_execute P src tgt [] = Inr []" and "s \<noteq> []"
  shows "gen_next P (ApiHead 0 tgt src s) log = None"
proof (cases "gen_next P (ApiHead 0 tgt src s) log")
  case None
  then show ?thesis .
next
  case (Some y)
  then show ?thesis using gen_next_stuck_aux [OF assms Some] by simp
qed

lemma consume_stuck:
  assumes "google_api_list_execute P src tgt [] = Inr []" and "s \<noteq> []"
  shows "consume P (ApiHead 0 tgt src s) acc log = None"
  by (subst consume.simps) (simp add: gen_next_stuck [OF assms])

section \<open>The translation methods\<close>

text \<open>The provider \<open>echo_providers\<close> answers one text per item, in the order of the request.\<close>

lemma echo_google_api:
  "google_api_list_execute echo_providers src tgt q = Inr (map (\<lambda>text. tgt @ '':'' @ text) q)"
  by (simp add: echo_providers_def)

lemma echo_googletrans_many:
  "googletrans_translate_many echo_providers q dest src = Inr (map (\<lambda>text. dest @ '':'' @ text) q)"
  by (simp add: echo_providers_def)

lemma echo_amazon:
  "amazon_translate_text echo_providers text src tgt = Inr (tgt @ '':'' @ text)"
  by (simp add: echo_providers_def)

lemma slices_300_128:
  "slices 128 (replicate 300 x) = [replicate 128 x, replicate 128 x, replicate 44 x]"
  by (simp add: slices_def upt_rec)

lemma slices_3_2: "slices 2 [a, b, c] = [[a, b], [c]]"
  by (simp add: slices_def upt_rec)

text \<open>
  C3. For \<^verbatim>\<open>GoogleAPITranslatorService\<close> with \<^verbatim>\<open>max_segments\<close> \<open>M \<ge> 1\<close> and a provider
  that answers each request (\<open>resp q\<close> for the request \<open>q\<close>): the call of
  \<^verbatim>\<open>translate_strings\<close> sends nothing and returns a generator; iterating it to the end
  sends exactly the requests \<open>slices M S\<close>, in this order, and produces the answers
  concatenated in the order of the requests. \<open>slices M S\<close> are \<open>(N + M - 1) div M\<close> lists
  (\<open>N / M\<close> rounded up, \<open>N = length S\<close>), the \<open>i\<close>-th being the items \<open>i * M, \<dots>\<close> of \<open>S\<close>,
  at most \<open>M\<close> of them, and together they are \<open>S\<close>. When every answer translates item by
  item (\<open>resp q = map f q\<close>), the texts produced are \<open>map f S\<close>: the translations of the
  items of \<open>S\<close>, in the order of \<open>S\<close>.
\<close>

theorem GoogleAPITranslatorService_translate_strings_chunks:
  assumes "0 < M"
      and "\<forall>q. google_api_list_execute P src tgt q = Inr (resp q)"
  shows "GoogleAPITranslatorService_translate_strings (int M) S tgt src log =
           (Inr (ApiHead (int M) tgt src S), log)
       \<and> consume P (ApiHead (int M) tgt src S) [] log =
           Some (concat (map resp (slices M S)), None,
                 log @ map (GoogleApiList src tgt) (slices M S))
       \<and> length (slices M S) = (length S + M - 1) div M
       \<and> (\<forall>q \<in> set (slices M S). length q \<le> M)
       \<and> concat (slices M S) = S
       \<and> ((\<forall>q. resp q = map f q) \<longrightarrow> concat (map resp (slices M S)) = map f S)"
proof -
  have ok: "\<And>q. google_api_list_execute P src tgt q = Inr (resp q)" using assms(2) by simp
  have 1: "GoogleAPITranslatorService_translate_strings (int M) S tgt src log =
           (Inr (ApiHead (int M) tgt src S), log)"
    by (simp add: GoogleAPITranslatorService_translate_strings_def)
  have 2: "consume P (ApiHead (int M) tgt src S) [] log =
           Some (concat (map resp (slices M S)), None,
                 log @ map (GoogleApiList src tgt) (slices M S))"
    using consume_ApiHead [OF assms(1) ok, of S "[]" log] by simp
  have 3: "length (slices M S) = (length S + M - 1) div M" by (rule length_slices)
  have 4: "\<forall>q \<in> set (slices M S). length q \<le> M" using slices_le by blast
  have 5: "concat (slices M S) = S" by (rule concat_slices [OF assms(1)])
  have 6: "(\<forall>q. resp q = map f q) \<longrightarrow> concat (map resp (slices M S)) = map f S"
  proof
    assume "\<forall>q. resp q = map f q"
    then have "resp = map f" by auto
    then show "concat (map resp (slices M S)) = map f S"
      by (simp add: concat_map_slices [OF assms(1)])
  qed
  show ?thesis using 1 2 3 4 5 6 by blast
qed

text \<open>
  The example of the claim: 300 items and \<^verbatim>\<open>max_segments\<close> 128 give three requests, of
  128, 128 and 44 items.
\<close>

theorem GoogleAPITranslatorService_translate_strings_chunks_witness:
  "0 < (128::nat)
   \<and> (\<forall>q. google_api_list_execute echo_providers ''en'' ''fr'' q =
          Inr (map (\<lambda>text. ''fr'' @ '':'' @ text) q))
   \<and> GoogleAPITranslatorService_translate_strings 128 (replicate 300 ''a'') ''fr'' ''en'' [] =
       (Inr (ApiHead 128 ''fr'' ''en'' (replicate 300 ''a'')), [])
   \<and> consume echo_providers (ApiHead 128 ''fr'' ''en'' (replicate 300 ''a'')) [] [] =
       Some (replicate 300 ''fr:a'', None,
             [GoogleApiList ''en'' ''fr'' (replicate 128 ''a''),
              GoogleApiList ''en'' ''fr'' (replicate 128 ''a''),
              GoogleApiList ''en'' ''fr'' (replicate 44 ''a'')])
   \<and> length (slices 128 (replicate 300 ''a'')) = 3"
proof -
  have h1: "0 < (128::nat)" by simp
  have h2: "\<forall>q. google_api_list_execute echo_providers ''en'' ''fr'' q =
          Inr (map (\<lambda>text. ''fr'' @ '':'' @ text) q)"
    by (simp add: echo_google_api)
  note t = GoogleAPITranslatorService_translate_strings_chunks
    [OF h1 h2, of "replicate 300 ''a''" "[]" "\<lambda>text. ''fr'' @ '':'' @ text"]
  show ?thesis using h1 h2 t by (simp add: slices_300_128)
qed

text \<open>
  C4, as the code has it. Let each provider answer every request with one translation per
  item, in the order of the request (\<open>map f\<close> over the request). Then for every list \<open>S\<close>,
  \<^verbatim>\<open>translate_strings\<close> of each of the three backends returns a generator, and iterating
  it to the end produces \<open>map f S\<close>: \<open>length S\<close> texts, the \<open>i\<close>-th the translation of the
  \<open>i\<close>-th item of \<open>S\<close>. For \<^verbatim>\<open>GoogleAPITranslatorService\<close> this needs a positive
  \<^verbatim>\<open>max_segments\<close> (as the default 128 is).
\<close>

theorem translate_strings_aligned:
  assumes "0 < M"
      and "\<forall>q. googletrans_translate_many P q tgt src = Inr (map f1 q)"
      and "\<forall>q. google_api_list_execute P src tgt q = Inr (map f2 q)"
      and "\<forall>x. amazon_translate_text P x src tgt = Inr (f3 x)"
  shows "(GoogleTranslatorService_translate_strings P S tgt src log =
            (Inr (GenExpr (map f1 S)), log @ [GoogletransTranslateMany S tgt src])
          \<and> consume P (GenExpr (map f1 S)) [] (log @ [GoogletransTranslateMany S tgt src]) =
            Some (map f1 S, None, log @ [GoogletransTranslateMany S tgt src]))
       \<and> (GoogleAPITranslatorService_translate_strings (int M) S tgt src log =
            (Inr (ApiHead (int M) tgt src S), log)
          \<and> consume P (ApiHead (int M) tgt src S) [] log =
            Some (map f2 S, None, log @ map (GoogleApiList src tgt) (slices M S)))
       \<and> (AmazonTranslateTranslatorService_translate_strings S tgt src log =
            (Inr (AmazonFor tgt src S), log)
          \<and> consume P (AmazonFor tgt src S) [] log =
            Some (map f3 S, None, log @ map (\<lambda>x. AmazonTranslateText x src tgt) S))"
proof -
  have ok2: "\<And>q. google_api_list_execute P src tgt q = Inr (map f2 q)" using assms(3) by simp
  have ok3: "\<And>x. amazon_translate_text P x src tgt = Inr (f3 x)" using assms(4) by simp
  have g1: "GoogleTranslatorService_translate_strings P S tgt src log =
            (Inr (GenExpr (map f1 S)), log @ [GoogletransTranslateMany S tgt src])"
    using assms(2) by (simp add: GoogleTranslatorService_translate_strings_def)
  have g2: "consume P (GenExpr (map f1 S)) [] (log @ [GoogletransTranslateMany S tgt src]) =
            Some (map f1 S, None, log @ [GoogletransTranslateMany S tgt src])"
    by (simp add: consume_GenExpr)
  have a1: "GoogleAPITranslatorService_translate_strings (int M) S tgt src log =
            (Inr (ApiHead (int M) tgt src S), log)"
    by (simp add: GoogleAPITranslatorService_translate_strings_def)
  have a2: "consume P (ApiHead (int M) tgt src S) [] log =
            Some (map f2 S, None, log @ map (GoogleApiList src tgt) (slices M S))"
    using consume_ApiHead [OF assms(1) ok2, of S "[]" log]
    by (simp add: concat_map_slices [OF assms(1)])
  have z1: "AmazonTranslateTranslatorService_translate_strings S tgt src log =
            (Inr (AmazonFor tgt src S), log)"
    by (simp add: AmazonTranslateTranslatorService_translate_strings_def)
  have z2: "consume P (AmazonFor tgt src S) [] log =
            Some (map f3 S, None, log @ map (\<lambda>x. AmazonTranslateText x src tgt) S)"
    using consume_AmazonFor [OF ok3, of S "[]" log] by simp
  show ?thesis using g1 g2 a1 a2 z1 z2 by blast
qed

theorem translate_strings_aligned_witness:
  "0 < (2::nat)
   \<and> (\<forall>q. googletrans_translate_many echo_providers q ''fr'' ''en'' =
          Inr (map (\<lambda>text. ''fr'' @ '':'' @ text) q))
   \<and> (\<forall>q. google_api_list_execute echo_providers ''en'' ''fr'' q =
          Inr (map (\<lambda>text. ''fr'' @ '':'' @ text) q))
   \<and> (\<forall>x. amazon_translate_text echo_providers x ''en'' ''fr'' = Inr (''fr'' @ '':'' @ x))
   \<and> GoogleTranslatorService_translate_strings echo_providers [''a'', ''b'', ''c''] ''fr'' ''en'' [] =
       (Inr (GenExpr [''fr:a'', ''fr:b'', ''fr:c'']),
        [GoogletransTranslateMany [''a'', ''b'', ''c''] ''fr'' ''en''])
   \<and> consume echo_providers (GenExpr [''fr:a'', ''fr:b'', ''fr:c'']) []
        [GoogletransTranslateMany [''a'', ''b'', ''c''] ''fr'' ''en''] =
       Some ([''fr:a'', ''fr:b'', ''fr:c''], None,
             [GoogletransTranslateMany [''a'', ''b'', ''c''] ''fr'' ''en''])
   \<and> consume echo_providers (ApiHead 2 ''fr'' ''en'' [''a'', ''b'', ''c'']) [] [] =
       Some ([''fr:a'', ''fr:b'', ''fr:c''], None,
             [GoogleApiList ''en'' ''fr'' [''a'', ''b''], GoogleApiList ''en'' ''fr'' [''c'']])
   \<and> consume echo_providers (AmazonFor ''fr'' ''en'' [''a'', ''b'', ''c'']) [] [] =
       Some ([''fr:a'', ''fr:b'', ''fr:c''], None,
             [AmazonTranslateText ''a'' ''en'' ''fr'', AmazonTranslateText ''b'' ''en'' ''fr'',
              AmazonTranslateText ''c'' ''en'' ''fr''])"
proof -
  have h1: "0 < (2::nat)" by simp
  have h2: "\<forall>q. googletrans_translate_many echo_providers q ''fr'' ''en'' =
          Inr (map (\<lambda>text. ''fr'' @ '':'' @ text) q)"
    by (simp add: echo_googletrans_many)
  have h3: "\<forall>q. google_api_list_execute echo_providers ''en'' ''fr'' q =
          Inr (map (\<lambda>text. ''fr'' @ '':'' @ text) q)"
    by (simp add: echo_google_api)
  have h4: "\<forall>x. amazon_translate_text echo_providers x ''en'' ''fr'' = Inr (''fr'' @ '':'' @ x)"
    by (simp add: echo_amazon)
  note t = translate_strings_aligned [OF h1 h2 h3 h4, of "[''a'', ''b'', ''c'']" "[]"]
  show ?thesis using h1 h2 h3 h4 t by (simp add: slices_3_2)
qed

text \<open>
  The claim C4 as stated, for every backend, does not hold: a
  \<^verbatim>\<open>GoogleAPITranslatorService\<close> built with \<^verbatim>\<open>max_segments=0\<close> asks for the empty slice
  \<^verbatim>\<open>strings[:0]\<close>, gets the empty answer, and keeps \<^verbatim>\<open>strings[0:]\<close>, the whole list:
  for the one-item list the first \<^verbatim>\<open>next\<close> never returns and nothing is produced.
\<close>

theorem translate_strings_aligned_counterexample:
  "google_api_list_execute echo_providers ''en'' ''fr'' [] = Inr []
   \<and> GoogleAPITranslatorService_translate_strings 0 [''a''] ''fr'' ''en'' [] =
       (Inr (ApiHead 0 ''fr'' ''en'' [''a'']), [])
   \<and> gen_next echo_providers (ApiHead 0 ''fr'' ''en'' [''a'']) [] = None
   \<and> consume echo_providers (ApiHead 0 ''fr'' ''en'' [''a'']) [] [] = None"
proof -
  have e: "google_api_list_execute echo_providers ''en'' ''fr'' [] = Inr []"
    by (simp add: echo_google_api)
  have s: "[''a''] \<noteq> []" by simp
  show ?thesis
    using e gen_next_stuck [OF e s] consume_stuck [OF e s]
    by (simp add: GoogleAPITranslatorService_translate_strings_def)
qed

text \<open>
  C5. For \<^verbatim>\<open>AmazonTranslateTranslatorService\<close> and a provider that answers each request
  (\<open>f x\<close> for the text \<open>x\<close>): the call of \<^verbatim>\<open>translate_strings\<close> sends nothing and returns
  a generator; each \<^verbatim>\<open>next\<close> is one call of \<^verbatim>\<open>translate_string\<close> on the next item, which
  sends one request for that item alone, and yields its result at once; iterating to the
  end sends exactly one request per item of \<open>S\<close>, in the order of \<open>S\<close>, and produces
  \<open>map f S\<close>.
\<close>

theorem AmazonTranslateTranslatorService_translate_strings_per_item:
  assumes "\<forall>x. amazon_translate_text P x src tgt = Inr (f x)"
  shows "AmazonTranslateTranslatorService_translate_strings S tgt src log =
           (Inr (AmazonFor tgt src S), log)
       \<and> (\<forall>x rest log'.
            AmazonTranslateTranslatorService_translate_string P x tgt src log' =
              (Inr (f x), log' @ [AmazonTranslateText x src tgt])
          \<and> gen_next P (AmazonFor tgt src (x # rest)) log' =
              Some (Yield (f x), AmazonFor tgt src rest, log' @ [AmazonTranslateText x src tgt]))
       \<and> consume P (AmazonFor tgt src S) [] log =
           Some (map f S, None, log @ map (\<lambda>x. AmazonTranslateText x src tgt) S)"
proof -
  have ok: "\<And>x. amazon_translate_text P x src tgt = Inr (f x)" using assms by simp
  have 1: "AmazonTranslateTranslatorService_translate_strings S tgt src log =
           (Inr (AmazonFor tgt src S), log)"
    by (simp add: AmazonTranslateTranslatorService_translate_strings_def)
  have 2: "\<And>x log'. AmazonTranslateTranslatorService_translate_string P x tgt src log' =
              (Inr (f x), log' @ [AmazonTranslateText x src tgt])"
    by (rule Amazon_translate_string_ok [OF ok])
  have 3: "\<And>x rest log'. gen_next P (AmazonFor tgt src (x # rest)) log' =
              Some (Yield (f x), AmazonFor tgt src rest, log' @ [AmazonTranslateText x src tgt])"
    by (simp add: gen_next_AmazonFor_Cons 2)
  have 4: "consume P (AmazonFor tgt src S) [] log =
           Some (map f S, None, log @ map (\<lambda>x. AmazonTranslateText x src tgt) S)"
    using consume_AmazonFor [OF ok, of S "[]" log] by simp
  show ?thesis using 1 2 3 4 by blast
qed

theorem AmazonTranslateTranslatorService_translate_strings_per_item_witness:
  "(\<forall>x. amazon_translate_text echo_providers x ''en'' ''fr'' = Inr (''fr'' @ '':'' @ x))
   \<and> AmazonTranslateTranslatorService_translate_strings [''a'', ''b'', ''c''] ''fr'' ''en'' [] =
       (Inr (AmazonFor ''fr'' ''en'' [''a'', ''b'', ''c'']), [])
   \<and> gen_next echo_providers (AmazonFor ''fr'' ''en'' [''a'', ''b'', ''c'']) [] =
       Some (Yield ''fr:a'', AmazonFor ''fr'' ''en'' [''b'', ''c''],
             [AmazonTranslateText ''a'' ''en'' ''fr''])
   \<and> consume echo_providers (AmazonFor ''fr'' ''en'' [''a'', ''b'', ''c'']) [] [] =
       Some ([''fr:a'', ''fr:b'', ''fr:c''], None,
             [AmazonTranslateText ''a'' ''en'' ''fr'', AmazonTranslateText ''b'' ''en'' ''fr'',
              AmazonTranslateText ''c'' ''en'' ''fr''])"
proof -
  have h: "\<forall>x. amazon_translate_text echo_providers x ''en'' ''fr'' = Inr (''fr'' @ '':'' @ x)"
    by (simp add: echo_amazon)
  note t = AmazonTranslateTranslatorService_translate_strings_per_item
    [OF h, of "[''a'', ''b'', ''c'']" "[]"]
  show ?thesis using h t by simp
qed

text \<open>
  C8. Both methods of \<^verbatim>\<open>BaseTranslatorService\<close> raise \<^verbatim>\<open>NotImplementedError\<close> with a
  message naming the method, and touch nothing. No method of the three concrete backends
  raises it: neither \<^verbatim>\<open>translate_string\<close>, nor the call of \<^verbatim>\<open>translate_strings\<close>, nor
  any step or full iteration of a generator it returned (every generator comes from a
  concrete backend). What a provider raises is passed through as it is and is not an
  exception of the package.
\<close>

theorem NotImplementedError_only_from_base:
  "BaseTranslatorService_translate_string text tgt src log =
     (Inl (NotImplementedError ''translate_string() must be overridden.''), log)
   \<and> BaseTranslatorService_translate_strings S tgt src log =
     (Inl (NotImplementedError ''translate_strings() must be overridden.''), log)
   \<and> fst (GoogleTranslatorService_translate_string P text tgt src log) \<noteq>
       Inl (NotImplementedError m)
   \<and> fst (GoogleAPITranslatorService_translate_string P text tgt src log) \<noteq>
       Inl (NotImplementedError m)
   \<and> fst (AmazonTranslateTranslatorService_translate_string P text tgt src log) \<noteq>
       Inl (NotImplementedError m)
   \<and> fst (GoogleTranslatorService_translate_strings P S tgt src log) \<noteq>
       Inl (NotImplementedError m)
   \<and> fst (GoogleAPITranslatorService_translate_strings M S tgt src log) \<noteq>
       Inl (NotImplementedError m)
   \<and> fst (AmazonTranslateTranslatorService_translate_strings S tgt src log) \<noteq>
       Inl (NotImplementedError m)
   \<and> gen_next P g log \<noteq> Some (Raise (NotImplementedError m), g', log')
   \<and> consume P g acc log \<noteq> Some (produced, Some (NotImplementedError m), log')"
proof -
  have n: "gen_next P g log \<noteq> Some (Raise (NotImplementedError m), g', log')"
    using gen_next_not_NotImplemented [of P g log "(Raise (NotImplementedError m), g', log')" m]
    by auto
  have c: "consume P g acc log \<noteq> Some (produced, Some (NotImplementedError m), log')"
    using consume_not_NotImplemented
      [of P g acc log "(produced, Some (NotImplementedError m), log')" m]
    by auto
  have s1: "fst (GoogleTranslatorService_translate_string P text tgt src log) \<noteq>
       Inl (NotImplementedError m)"
    by (simp add: GoogleTranslatorService_translate_string_def split: sum.splits)
  have s2: "fst (GoogleAPITranslatorService_translate_string P text tgt src log) \<noteq>
       Inl (NotImplementedError m)"
    by (simp add: GoogleAPITranslatorService_translate_string_def split: sum.splits list.splits)
  have s3: "fst (AmazonTranslateTranslatorService_translate_string P text tgt src log) \<noteq>
       Inl (NotImplementedError m)"
    by (simp add: AmazonTranslateTranslatorService_translate_string_def split: sum.splits)
  have s4: "fst (GoogleTranslatorService_translate_strings P S tgt src log) \<noteq>
       Inl (NotImplementedError m)"
    by (simp add: GoogleTranslatorService_translate_strings_def split: sum.splits)
  show ?thesis
    using n c s1 s2 s3 s4
    by (simp add: BaseTranslatorService_translate_string_def
        BaseTranslatorService_translate_strings_def
        GoogleAPITranslatorService_translate_strings_def
        AmazonTranslateTranslatorService_translate_strings_def)
qed

end
